theory Spec2Isabelle
  imports Complex_Main "HOL-Library.Sublist" "HOL-Library.Multiset"
begin

section \<open>Python strings\<close>

text \<open>
  A Python \<open>str\<close> is modelled as a \<open>string\<close>, one \<open>char\<close> per code point, so the
  code points are those below 256 and \<open>length\<close> is Python's \<open>len\<close>. The decimal
  literals that the source writes as floats (0.4, 0.5, 0.6, 0.8) are the same literals
  over \<open>real\<close>; the source only stores and compares them.
\<close>

text \<open>\<open>str.split(sep)\<close> for a one-character separator: every occurrence splits, empty
  pieces are kept, and the result is never empty. The scan carries the piece read so far.\<close>

fun split_from :: "char \<Rightarrow> string \<Rightarrow> string \<Rightarrow> string list" where
  "split_from d piece [] = [piece]"
| "split_from d piece (c # cs) =
     (if c = d then piece # split_from d [] cs else split_from d (piece @ [c]) cs)"

definition split_on :: "char \<Rightarrow> string \<Rightarrow> string list" where
  "split_on d s = split_from d [] s"

text \<open>The code points below 256 for which \<open>str.isspace\<close> holds; \<open>str.strip()\<close> removes
  them from both ends.\<close>

definition is_space :: "char \<Rightarrow> bool" where
  "is_space c = (c \<in> set [CHR 0x09, CHR 0x0A, CHR 0x0B, CHR 0x0C, CHR 0x0D,
      CHR 0x1C, CHR 0x1D, CHR 0x1E, CHR 0x1F, CHR 0x20, CHR 0x85, CHR 0xA0])"

definition strip :: "string \<Rightarrow> string" where
  "strip s = rev (dropWhile is_space (rev (dropWhile is_space s)))"

text \<open>\<open>str.lower()\<close> below 256: the ASCII capitals and the Latin-1 capitals
  (0xC0 to 0xDE without the multiplication sign 0xD7) move up by 0x20.\<close>

definition upper_chars :: "char list" where
  "upper_chars = ''ABCDEFGHIJKLMNOPQRSTUVWXYZ'' @
     [CHR 0xC0, CHR 0xC1, CHR 0xC2, CHR 0xC3, CHR 0xC4, CHR 0xC5, CHR 0xC6, CHR 0xC7,
      CHR 0xC8, CHR 0xC9, CHR 0xCA, CHR 0xCB, CHR 0xCC, CHR 0xCD, CHR 0xCE, CHR 0xCF,
      CHR 0xD0, CHR 0xD1, CHR 0xD2, CHR 0xD3, CHR 0xD4, CHR 0xD5, CHR 0xD6,
      CHR 0xD8, CHR 0xD9, CHR 0xDA, CHR 0xDB, CHR 0xDC, CHR 0xDD, CHR 0xDE]"

definition lower_chars :: "char list" where
  "lower_chars = ''abcdefghijklmnopqrstuvwxyz'' @
     [CHR 0xE0, CHR 0xE1, CHR 0xE2, CHR 0xE3, CHR 0xE4, CHR 0xE5, CHR 0xE6, CHR 0xE7,
      CHR 0xE8, CHR 0xE9, CHR 0xEA, CHR 0xEB, CHR 0xEC, CHR 0xED, CHR 0xEE, CHR 0xEF,
      CHR 0xF0, CHR 0xF1, CHR 0xF2, CHR 0xF3, CHR 0xF4, CHR 0xF5, CHR 0xF6,
      CHR 0xF8, CHR 0xF9, CHR 0xFA, CHR 0xFB, CHR 0xFC, CHR 0xFD, CHR 0xFE]"

definition lower_char :: "char \<Rightarrow> char" where
  "lower_char c = (case map_of (zip upper_chars lower_chars) c of Some l \<Rightarrow> l | None \<Rightarrow> c)"

definition lower :: "string \<Rightarrow> string" where
  "lower s = map lower_char s"

text \<open>\<open>word in sentence\<close> on strings: \<open>word\<close> occurs as a contiguous run.\<close>

fun str_in :: "string \<Rightarrow> string \<Rightarrow> bool" where
  "str_in w [] = (w = [])"
| "str_in w (c # cs) = (prefix w (c # cs) \<or> str_in w cs)"

text \<open>\<open>sep.join(parts)\<close>.\<close>

fun join :: "string \<Rightarrow> string list \<Rightarrow> string" where
  "join sep [] = []"
| "join sep [p] = p"
| "join sep (p # q # ps) = p @ sep @ join sep (q # ps)"

text \<open>\<open>xs[:k]\<close> for an integer \<open>k\<close>: a negative \<open>k\<close> counts from the end.\<close>

definition py_slice_to :: "int \<Rightarrow> 'a list \<Rightarrow> 'a list" where
  "py_slice_to k xs =
     (if 0 \<le> k then take (nat k) xs else take (nat (int (length xs) + k)) xs)"

section \<open>Sorting by a key, largest first\<close>

text \<open>
  Both \<open>list.sort(key=..., reverse=True)\<close> and a MongoDB sort with direction \<open>-1\<close> order
  by descending key. Python's sort is stable also with \<open>reverse=True\<close>: elements with equal
  keys keep their order. The same stable sort stands for the database sort; MongoDB leaves
  the order of equal keys open, and the results below about database queries do not depend
  on it.
\<close>

fun insort_desc :: "('a \<Rightarrow> 'k::linorder) \<Rightarrow> 'a \<Rightarrow> 'a list \<Rightarrow> 'a list" where
  "insort_desc f x [] = [x]"
| "insort_desc f x (y # ys) =
     (if f y \<le> f x then x # y # ys else y # insort_desc f x ys)"

definition sort_desc :: "('a \<Rightarrow> 'k::linorder) \<Rightarrow> 'a list \<Rightarrow> 'a list" where
  "sort_desc f xs = foldr (insort_desc f) xs []"

section \<open>Documents and collections\<close>

type_synonym timestamp = nat
type_synonym vector = "real list"

text \<open>Every stored document has \<open>user_id\<close>, \<open>session_id\<close> and \<open>created_at\<close>; the three
  collections extend this. \<open>session_id\<close> is \<open>None\<close> where the source stores \<open>None\<close>.\<close>

record doc =
  user_id :: string
  session_id :: "string option"
  created_at :: timestamp

record message = doc +
  role :: string
  content :: string

record summary = doc +
  scope :: string
  summary_text :: string

record episode = doc +
  fact :: string
  importance :: real
  embedding :: vector

text \<open>An episode fetched by \<open>get_relevant_episodes\<close> gets the extra key \<open>similarity\<close>.\<close>

record scored_episode = episode +
  similarity :: real

datatype error = ValueError | ConnectionError | Timeout | HTTPError nat

text \<open>
  The database: three collections, each in insertion order. The counters say how many
  times the clock and the random generator have been read so far.
\<close>

record world =
  messages :: "message list"
  summaries :: "summary list"
  episodes :: "episode list"
  clock_reads :: nat
  rand_draws :: nat

text \<open>
  What the process does not control: the clock (\<open>datetime.utcnow()\<close>, the k-th reading),
  the Ollama endpoints (a failed request or a non-success status is \<open>Inl\<close>),
  \<open>np.random.rand\<close> (the k-th draw of the given dimension) and scikit-learn's
  \<open>cosine_similarity\<close> on two row vectors (\<open>Inl\<close> when it raises).
\<close>

record env =
  utcnow :: "nat \<Rightarrow> timestamp"
  ollama_generate :: "string \<Rightarrow> error + string"
  ollama_embeddings :: "string \<Rightarrow> error + vector"
  np_random_rand :: "nat \<Rightarrow> nat \<Rightarrow> vector"
  sklearn_cosine_similarity :: "vector \<Rightarrow> vector \<Rightarrow> error + real"

definition SHORT_TERM_N :: int where "SHORT_TERM_N = 16"
definition SUMMARIZE_EVERY_USER_MSGS :: nat where "SUMMARIZE_EVERY_USER_MSGS = 5"
definition TOP_K_EPISODES :: int where "TOP_K_EPISODES = 5"

text \<open>The filters of the queries.\<close>

definition in_session :: "string \<Rightarrow> string option \<Rightarrow> 'a doc_scheme \<Rightarrow> bool" where
  "in_session uid sid d = (user_id d = uid \<and> session_id d = sid)"

definition of_user :: "string \<Rightarrow> 'a doc_scheme \<Rightarrow> bool" where
  "of_user uid d = (user_id d = uid)"

text \<open>\<open>cursor.limit(n)\<close>: 0 is no limit, a negative \<open>n\<close> limits to \<open>-n\<close>.
  \<open>cursor.to_list(length)\<close>: at most \<open>length\<close> documents; a negative \<open>length\<close> raises
  \<open>ValueError\<close>.\<close>

definition cursor_limit :: "int \<Rightarrow> 'a list \<Rightarrow> 'a list" where
  "cursor_limit n xs = (if n = 0 then xs else take (nat \<bar>n\<bar>) xs)"

definition to_list :: "int \<Rightarrow> 'a list \<Rightarrow> error + 'a list" where
  "to_list n xs = (if n < 0 then Inl ValueError else Inr (take (nat n) xs))"

section \<open>The message ledger\<close>

definition save_message ::
  "env \<Rightarrow> world \<Rightarrow> string \<Rightarrow> string option \<Rightarrow> string \<Rightarrow> string \<Rightarrow> world" where
  "save_message ev w uid sid r c =
     w\<lparr>messages := messages w @
          [\<lparr>user_id = uid, session_id = sid, created_at = utcnow ev (clock_reads w),
            role = r, content = c\<rparr>],
       clock_reads := clock_reads w + 1\<rparr>"

definition get_short_term_messages ::
  "world \<Rightarrow> string \<Rightarrow> string option \<Rightarrow> int \<Rightarrow> error + message list" where
  "get_short_term_messages w uid sid limit =
     (case to_list limit
             (cursor_limit limit
                (sort_desc created_at (filter (in_session uid sid) (messages w)))) of
        Inl e \<Rightarrow> Inl e
      | Inr msgs \<Rightarrow> Inr (rev msgs))"

text \<open>\<open>find_one(filter, sort=[("created_at", -1)])\<close>: the newest matching document.\<close>

definition find_one_latest :: "('a doc_scheme \<Rightarrow> bool) \<Rightarrow> 'a doc_scheme list \<Rightarrow> 'a doc_scheme option" where
  "find_one_latest P ds = (case sort_desc created_at (filter P ds) of [] \<Rightarrow> None | d # _ \<Rightarrow> Some d)"

section \<open>The collaborators\<close>

definition nl :: string where
  "nl = [CHR 0x0A]"

definition apology :: string where
  "apology = ''I'' @ [CHR 0x27] @ ''m sorry, I'' @ [CHR 0x27] @
     ''m having trouble processing your request right now.''"

text \<open>Every exception of the request is caught and answered by the fixed apology.\<close>

definition get_ollama_response :: "env \<Rightarrow> string \<Rightarrow> string" where
  "get_ollama_response ev prompt =
     (case ollama_generate ev prompt of Inr r \<Rightarrow> r | Inl e \<Rightarrow> apology)"

text \<open>Every exception of the request is caught and answered by a random vector of
  dimension 384.\<close>

definition get_embedding :: "env \<Rightarrow> world \<Rightarrow> string \<Rightarrow> vector \<times> world" where
  "get_embedding ev w t =
     (case ollama_embeddings ev t of
        Inr v \<Rightarrow> (v, w)
      | Inl e \<Rightarrow> (np_random_rand ev (rand_draws w) 384, w\<lparr>rand_draws := rand_draws w + 1\<rparr>))"

text \<open>The bare \<open>except\<close> turns every exception of the library call into 0.0.\<close>

definition cosine_similarity_score :: "env \<Rightarrow> vector \<Rightarrow> vector \<Rightarrow> real" where
  "cosine_similarity_score ev embedding1 embedding2 =
     (case sklearn_cosine_similarity ev embedding1 embedding2 of Inr v \<Rightarrow> v | Inl e \<Rightarrow> 0)"

section \<open>Summaries\<close>

record long_term =
  session :: "string option"
  lifetime :: "string option"

definition get_long_term_summaries :: "world \<Rightarrow> string \<Rightarrow> string option \<Rightarrow> long_term" where
  "get_long_term_summaries w uid sid =
     (let session_summary =
            find_one_latest (\<lambda>d. user_id d = uid \<and> session_id d = sid \<and> scope d = ''session'')
              (summaries w);
          lifetime_summary =
            find_one_latest (\<lambda>d. user_id d = uid \<and> scope d = ''user'') (summaries w)
      in \<lparr>session = map_option summary_text session_summary,
          lifetime = map_option summary_text lifetime_summary\<rparr>)"

definition should_summarize :: "world \<Rightarrow> string \<Rightarrow> string option \<Rightarrow> bool" where
  "should_summarize w uid sid =
     (let user_message_count =
            length (filter (\<lambda>d. user_id d = uid \<and> session_id d = sid \<and> role d = ''user'')
                      (messages w))
      in user_message_count mod SUMMARIZE_EVERY_USER_MSGS = 0)"

text \<open>The f-string \<open>f"{msg['role']}: {msg['content']}"\<close>.\<close>

definition render_message :: "message \<Rightarrow> string" where
  "render_message msg = role msg @ '': '' @ content msg"

definition generate_session_summary ::
  "env \<Rightarrow> world \<Rightarrow> string \<Rightarrow> string option \<Rightarrow> string \<times> world" where
  "generate_session_summary ev w uid sid =
     (let recent_messages =
            take 20 (sort_desc created_at (filter (in_session uid sid) (messages w)))
      in if recent_messages = [] then ([], w)
         else
           let conversation = join nl (map render_message (rev recent_messages));
               prompt = ''Summarize the following conversation into key points:'' @ nl @ nl @
                        conversation @ nl @ nl @
                        ''Provide a concise summary with 3-5 bullet points:'';
               summary = get_ollama_response ev prompt
           in (summary,
               w\<lparr>summaries := summaries w @
                    [\<lparr>user_id = uid, session_id = sid,
                      created_at = utcnow ev (clock_reads w),
                      scope = ''session'', summary_text = summary\<rparr>],
                 clock_reads := clock_reads w + 1\<rparr>))"

definition update_lifetime_summary :: "env \<Rightarrow> world \<Rightarrow> string \<Rightarrow> string \<times> world" where
  "update_lifetime_summary ev w uid =
     (let session_summaries =
            take 5 (sort_desc created_at
                      (filter (\<lambda>d. user_id d = uid \<and> scope d = ''session'') (summaries w)))
      in if session_summaries = [] then ([], w)
         else
           let combined_summaries = join (nl @ nl) (map summary_text session_summaries);
               prompt = ''Create a lifetime user profile summary from these session summaries:'' @
                        nl @ nl @ combined_summaries @ nl @ nl @
                        ''Provide a concise user profile with key characteristics and preferences:'';
               lifetime_summary = get_ollama_response ev prompt
           in (lifetime_summary,
               w\<lparr>summaries := summaries w @
                    [\<lparr>user_id = uid, session_id = None,
                      created_at = utcnow ev (clock_reads w),
                      scope = ''user'', summary_text = lifetime_summary\<rparr>],
                 clock_reads := clock_reads w + 1\<rparr>))"

section \<open>Episodes\<close>

definition high_keywords :: "string list" where
  "high_keywords = [''important'', ''remember'', ''always'', ''never'', ''love'', ''hate'']"

definition mid_keywords :: "string list" where
  "mid_keywords = [''like'', ''prefer'', ''want'', ''need'']"

text \<open>The score that the loop body of \<open>extract_episodes\<close> assigns to a sentence:
  0.5, raised to 0.8 by the first \<open>any\<close>, else to 0.6 by the second.\<close>

definition importance_score :: "string \<Rightarrow> real" where
  "importance_score sentence =
     (if list_ex (\<lambda>word. str_in word (lower sentence)) high_keywords then 0.8
      else if list_ex (\<lambda>word. str_in word (lower sentence)) mid_keywords then 0.6
      else 0.5)"

text \<open>The loop of \<open>extract_episodes\<close> over the pieces of the message; \<open>facts\<close> is the
  list built so far.\<close>

fun extract_loop ::
  "env \<Rightarrow> string \<Rightarrow> string option \<Rightarrow> string list \<Rightarrow> episode list \<Rightarrow> world
     \<Rightarrow> episode list \<times> world" where
  "extract_loop ev uid sid [] facts w = (facts, w)"
| "extract_loop ev uid sid (piece # rest) facts w =
     (let sentence = strip piece in
      if length sentence > 10 \<and> length sentence < 200 then
        let importance = importance_score sentence in
        if importance > 0.4 then
          let (emb, w1) = get_embedding ev w sentence;
              episode = \<lparr>user_id = uid, session_id = sid,
                         created_at = utcnow ev (clock_reads w1),
                         fact = sentence, importance = importance, embedding = emb\<rparr>;
              w2 = w1\<lparr>episodes := episodes w1 @ [episode],
                      clock_reads := clock_reads w1 + 1\<rparr>
          in extract_loop ev uid sid rest (facts @ [episode]) w2
        else extract_loop ev uid sid rest facts w
      else extract_loop ev uid sid rest facts w)"

definition extract_episodes ::
  "env \<Rightarrow> world \<Rightarrow> string \<Rightarrow> string option \<Rightarrow> string \<Rightarrow> episode list \<times> world" where
  "extract_episodes ev w uid sid message =
     extract_loop ev uid sid (split_on CHR ''.'' message) [] w"

definition with_similarity :: "env \<Rightarrow> vector \<Rightarrow> episode \<Rightarrow> scored_episode" where
  "with_similarity ev message_embedding ep =
     episode.extend ep
       (scored_episode.fields
          (cosine_similarity_score ev message_embedding (embedding ep)))"

definition get_relevant_episodes ::
  "env \<Rightarrow> world \<Rightarrow> string \<Rightarrow> string \<Rightarrow> int \<Rightarrow> scored_episode list \<times> world" where
  "get_relevant_episodes ev w uid message top_k =
     (let (message_embedding, w1) = get_embedding ev w message;
          eps = map (with_similarity ev message_embedding)
                    (filter (of_user uid) (episodes w1))
      in (py_slice_to top_k (sort_desc similarity eps), w1))"

section \<open>The prompt and the chat turn\<close>

text \<open>Truth value of an optional string: \<open>None\<close> and the empty string are false.\<close>

definition truthy :: "string option \<Rightarrow> bool" where
  "truthy s = (case s of None \<Rightarrow> False | Some t \<Rightarrow> t \<noteq> [])"

definition build_prompt ::
  "string \<Rightarrow> long_term \<Rightarrow> message list \<Rightarrow> string \<Rightarrow> 'a episode_scheme list \<Rightarrow> string" where
  "build_prompt primer long_term_summaries short_term_messages current_message
       facts =
     join (nl @ nl)
       ([primer] @
        (if truthy (lifetime long_term_summaries)
         then [''User Profile: '' @ the (lifetime long_term_summaries)] else []) @
        (if truthy (session long_term_summaries)
         then [''Session Context: '' @ the (session long_term_summaries)] else []) @
        (if short_term_messages \<noteq> []
         then [''Recent conversation:'' @ nl @ join nl (map render_message short_term_messages)]
         else []) @
        [''User: '' @ current_message] @
        (if facts \<noteq> []
         then [''Relevant facts:'' @ nl @ join nl (map (\<lambda>f. ''- '' @ fact f) facts)]
         else []))"

record chat_request =
  req_user_id :: string
  req_session_id :: "string option"
  req_message :: string

record memory_used =
  short_term_count :: nat
  long_term_summary :: "string option"
  session_summary :: "string option"
  episodic_facts :: "(string \<times> real) list"

record chat_response =
  reply :: string
  memory :: memory_used

datatype http_exception = HTTPException nat error

definition system_primer :: string where
  "system_primer = ''You are a helpful AI assistant with memory. Use the provided context and facts to give personalized responses.''"

text \<open>
  One call of the endpoint. The result is the response or the exception raised by the
  handler, together with the database as the call leaves it: nothing written before an
  exception is undone.
\<close>

definition chat :: "env \<Rightarrow> world \<Rightarrow> chat_request \<Rightarrow> (http_exception + chat_response) \<times> world" where
  "chat ev w request =
     (let uid = req_user_id request; sid = req_session_id request;
          msg = req_message request;
          w1 = save_message ev w uid sid ''user'' msg
      in case get_short_term_messages w1 uid sid SHORT_TERM_N of
           Inl e \<Rightarrow> (Inl (HTTPException 500 e), w1)
         | Inr short_term_messages \<Rightarrow>
             let long_term_summaries = get_long_term_summaries w1 uid sid;
                 (eps, w2) = extract_episodes ev w1 uid sid msg;
                 (relevant_episodes, w3) = get_relevant_episodes ev w2 uid msg TOP_K_EPISODES;
                 prompt = build_prompt system_primer long_term_summaries short_term_messages
                            msg relevant_episodes;
                 r = get_ollama_response ev prompt;
                 w4 = save_message ev w3 uid sid ''assistant'' r;
                 w5 = (if should_summarize w4 uid sid then
                         let w' = snd (generate_session_summary ev w4 uid sid) in
                         if length short_term_messages mod 5 = 0
                         then snd (update_lifetime_summary ev w' uid) else w'
                       else w4)
             in (Inr \<lparr>reply = r,
                      memory = \<lparr>short_term_count = length short_term_messages,
                                long_term_summary = lifetime long_term_summaries,
                                session_summary = session long_term_summaries,
                                episodic_facts =
                                  map (\<lambda>ep. (fact ep, importance ep)) relevant_episodes\<rparr>\<rparr>,
                 w5))"

section \<open>Notions of the specification and sample data\<close>

text \<open>The turns of one \<open>(user_id, session_id)\<close> partition, in the order they were
  appended.\<close>

definition session_turns :: "world \<Rightarrow> string \<Rightarrow> string option \<Rightarrow> message list" where
  "session_turns w uid sid = filter (in_session uid sid) (messages w)"

definition ledger_sample :: world where
  "ledger_sample = \<lparr>messages =
      [\<lparr>user_id = ''u'', session_id = Some ''s'', created_at = 1, role = ''user'', content = ''a''\<rparr>,
       \<lparr>user_id = ''u'', session_id = Some ''s'', created_at = 2, role = ''assistant'', content = ''b''\<rparr>,
       \<lparr>user_id = ''v'', session_id = Some ''s'', created_at = 3, role = ''user'', content = ''x''\<rparr>,
       \<lparr>user_id = ''u'', session_id = Some ''s'', created_at = 4, role = ''user'', content = ''c''\<rparr>],
     summaries = [], episodes = [], clock_reads = 4, rand_draws = 0\<rparr>"

text \<open>An environment in which every request succeeds, and the empty database.\<close>

definition sample_env :: env where
  "sample_env = \<lparr>utcnow = (\<lambda>k. k), ollama_generate = (\<lambda>p. Inr ''ok''),
     ollama_embeddings = (\<lambda>t. Inr [1]), np_random_rand = (\<lambda>k n. replicate n 0),
     sklearn_cosine_similarity = (\<lambda>a b. Inr 1)\<rparr>"

definition empty_world :: world where
  "empty_world = \<lparr>messages = [], summaries = [], episodes = [], clock_reads = 0, rand_draws = 0\<rparr>"

text \<open>The length gate of \<open>extract_episodes\<close>.\<close>

definition length_ok :: "string \<Rightarrow> bool" where
  "length_ok s = (10 < length s \<and> length s < 200)"

text \<open>The episodes of a user in scan order, each with its similarity to the query.\<close>

definition scored_scan :: "env \<Rightarrow> world \<Rightarrow> string \<Rightarrow> string \<Rightarrow> scored_episode list" where
  "scored_scan ev w uid message =
     map (with_similarity ev (fst (get_embedding ev w message)))
         (filter (of_user uid) (episodes w))"

text \<open>An environment whose similarity is the dot product, and three episodes of one
  user, two of them with the same similarity to the query \<open>[1]\<close>.\<close>

definition dot_env :: env where
  "dot_env = \<lparr>utcnow = (\<lambda>k. k), ollama_generate = (\<lambda>p. Inr ''ok''),
     ollama_embeddings = (\<lambda>t. Inr [1]), np_random_rand = (\<lambda>k n. replicate n 0),
     sklearn_cosine_similarity =
       (\<lambda>a b. if length a = length b then Inr (sum_list (map2 (*) a b)) else Inl ValueError)\<rparr>"

definition episode_sample :: world where
  "episode_sample = \<lparr>messages = [], summaries = [],
     episodes =
       [\<lparr>user_id = ''u'', session_id = Some ''s'', created_at = 1, fact = ''a'',
         importance = 0.5, embedding = [1]\<rparr>,
        \<lparr>user_id = ''u'', session_id = Some ''s'', created_at = 2, fact = ''b'',
         importance = 0.5, embedding = [2]\<rparr>,
        \<lparr>user_id = ''v'', session_id = Some ''s'', created_at = 3, fact = ''x'',
         importance = 0.5, embedding = [3]\<rparr>,
        \<lparr>user_id = ''u'', session_id = Some ''s'', created_at = 4, fact = ''c'',
         importance = 0.5, embedding = [1]\<rparr>],
     clock_reads = 4, rand_draws = 0\<rparr>"

text \<open>The number of user turns of a partition.\<close>

definition user_turns :: "world \<Rightarrow> string \<Rightarrow> string option \<Rightarrow> nat" where
  "user_turns w uid sid = length (filter (\<lambda>m. role m = ''user'') (session_turns w uid sid))"

text \<open>A stored digest is well formed: a session digest with a session, or a digest of
  scope \<open>user\<close> without one.\<close>

definition digest_ok :: "summary \<Rightarrow> bool" where
  "digest_ok d = ((scope d = ''session'' \<and> session_id d \<noteq> None) \<or>
                  (scope d = ''user'' \<and> session_id d = None))"


definition turn :: "nat \<Rightarrow> string \<Rightarrow> string \<Rightarrow> message" where
  "turn t r c = \<lparr>user_id = ''u'', session_id = Some ''s'', created_at = t, role = r, content = c\<rparr>"

definition old_digest :: summary where
  "old_digest = \<lparr>user_id = ''u'', session_id = Some ''s0'', created_at = 0,
     scope = ''session'', summary_text = ''- likes tea''\<rparr>"

definition two_turns_world :: world where
  "two_turns_world = \<lparr>messages =
       [turn 1 ''user'' ''a'', turn 2 ''assistant'' ''b'',
        turn 3 ''user'' ''c'', turn 4 ''assistant'' ''d''],
     summaries = [old_digest], episodes = [], clock_reads = 5, rand_draws = 0\<rparr>"

definition four_turns_world :: world where
  "four_turns_world = \<lparr>messages =
       [turn 1 ''user'' ''a'', turn 2 ''assistant'' ''b'',
        turn 3 ''user'' ''c'', turn 4 ''assistant'' ''d'',
        turn 5 ''user'' ''e'', turn 6 ''assistant'' ''f'',
        turn 7 ''user'' ''g'', turn 8 ''assistant'' ''h''],
     summaries = [old_digest], episodes = [], clock_reads = 9, rand_draws = 0\<rparr>"

definition hi_request :: chat_request where
  "hi_request = \<lparr>req_user_id = ''u'', req_session_id = Some ''s'', req_message = ''hi''\<rparr>"

text \<open>A session whose requests carried no session id (\<open>session_id\<close> null), after four
  exchanges, and the next such request.\<close>

definition null_turn :: "nat \<Rightarrow> string \<Rightarrow> string \<Rightarrow> message" where
  "null_turn t r c = \<lparr>user_id = ''u'', session_id = None, created_at = t, role = r, content = c\<rparr>"

definition null_session_world :: world where
  "null_session_world = \<lparr>messages =
       [null_turn 1 ''user'' ''a'', null_turn 2 ''assistant'' ''b'',
        null_turn 3 ''user'' ''c'', null_turn 4 ''assistant'' ''d'',
        null_turn 5 ''user'' ''e'', null_turn 6 ''assistant'' ''f'',
        null_turn 7 ''user'' ''g'', null_turn 8 ''assistant'' ''h''],
     summaries = [], episodes = [], clock_reads = 8, rand_draws = 0\<rparr>"

definition null_request :: chat_request where
  "null_request = \<lparr>req_user_id = ''u'', req_session_id = None, req_message = ''hi''\<rparr>"

section \<open>Facts about the sort\<close>

lemma mset_insort_desc: "mset (insort_desc f x ys) = add_mset x (mset ys)"
  by (induction ys) simp_all

lemma mset_sort_desc: "mset (sort_desc f xs) = mset xs"
  by (induction xs) (simp_all add: sort_desc_def mset_insort_desc)

lemma length_sort_desc: "length (sort_desc f xs) = length xs"
  using mset_sort_desc [of f xs] by (metis size_mset)

lemma set_sort_desc: "set (sort_desc f xs) = set xs"
  using mset_sort_desc [of f xs] by (metis set_mset_mset)

lemma set_insort_desc: "set (insort_desc f x ys) = insert x (set ys)"
  using mset_insort_desc [of f x ys] by (metis set_mset_mset set_mset_add_mset_insert)

lemma sorted_insort_desc:
  "sorted_wrt (\<lambda>a b. f b \<le> f a) ys \<Longrightarrow> sorted_wrt (\<lambda>a b. f b \<le> f a) (insort_desc f x ys)"
  by (induction ys) (auto simp: set_insort_desc)

lemma sorted_sort_desc: "sorted_wrt (\<lambda>a b. f b \<le> f a) (sort_desc f xs)"
  by (induction xs) (simp_all add: sort_desc_def sorted_insort_desc)

lemma filter_insort_desc:
  "sorted_wrt (\<lambda>a b. f b \<le> f a) ys \<Longrightarrow>
   filter (\<lambda>y. f y = k) (insort_desc f x ys) =
     (if f x = k then x # filter (\<lambda>y. f y = k) ys else filter (\<lambda>y. f y = k) ys)"
proof (induction ys)
  case Nil
  show ?case by simp
next
  case (Cons y ys)
  have tl: "sorted_wrt (\<lambda>a b. f b \<le> f a) ys" using Cons.prems by simp
  have below: "\<forall>z \<in> set ys. f z \<le> f y" using Cons.prems by simp
  show ?case
  proof (cases "f y \<le> f x")
    case True
    then show ?thesis by simp
  next
    case False
    then show ?thesis using Cons.IH [OF tl] by auto
  qed
qed

lemma sort_desc_stable: "filter (\<lambda>y. f y = k) (sort_desc f xs) = filter (\<lambda>y. f y = k) xs"
proof (induction xs)
  case Nil
  show ?case by (simp add: sort_desc_def)
next
  case (Cons x xs)
  have "sort_desc f (x # xs) = insort_desc f x (sort_desc f xs)"
    by (simp add: sort_desc_def)
  then show ?case
    using Cons.IH filter_insort_desc [OF sorted_sort_desc, of f k x xs] by simp
qed

lemma insort_desc_smallest:
  "\<forall>y \<in> set ys. f x < f y \<Longrightarrow> insort_desc f x ys = ys @ [x]"
  by (induction ys) auto

lemma sort_desc_increasing:
  "sorted_wrt (\<lambda>a b. f a < f b) xs \<Longrightarrow> sort_desc f xs = rev xs"
proof (induction xs)
  case Nil
  show ?case by (simp add: sort_desc_def)
next
  case (Cons x xs)
  have step: "sort_desc f (x # xs) = insort_desc f x (sort_desc f xs)"
    by (simp add: sort_desc_def)
  have "sort_desc f xs = rev xs" using Cons by simp
  moreover have "\<forall>y \<in> set (rev xs). f x < f y" using Cons.prems by simp
  ultimately show ?case using step insort_desc_smallest [of "rev xs" f x] by simp
qed

lemma sorted_desc_take_drop:
  assumes "sorted_wrt (\<lambda>a b. f b \<le> f a) xs"
  shows "\<forall>a \<in> set (take k xs). \<forall>b \<in> set (drop k xs). f b \<le> f a"
proof -
  have "sorted_wrt (\<lambda>a b. f b \<le> f a) (take k xs @ drop k xs)" using assms by simp
  then show ?thesis unfolding sorted_wrt_append by blast
qed

section \<open>The ledger's recent window\<close>

lemma fetch_nonneg: "0 \<le> n \<Longrightarrow> to_list n (cursor_limit n xs) = Inr (take (nat n) xs)"
  by (simp add: to_list_def cursor_limit_def)

lemma get_short_term_messages_nonneg:
  "0 \<le> limit \<Longrightarrow>
   get_short_term_messages w uid sid limit =
     Inr (rev (take (nat limit) (sort_desc created_at (filter (in_session uid sid) (messages w)))))"
  by (simp add: get_short_term_messages_def fetch_nonneg)

lemma mset_minus_take: "mset xs - mset (take k xs) = mset (drop k xs)"
proof -
  have "mset xs = mset (take k xs) + mset (drop k xs)"
    by (metis append_take_drop_id mset_append)
  then show ?thesis by simp
qed

lemma mset_take_sub: "mset (take k xs) \<subseteq># mset xs"
proof -
  have "mset xs = mset (take k xs) + mset (drop k xs)"
    by (metis append_take_drop_id mset_append)
  then show ?thesis by (metis mset_subset_eq_add_left)
qed

text \<open>
  Claim C3. For a limit that is not negative, \<open>get_short_term_messages\<close> returns: the
  newest-first query, cut at the limit and reversed; its length is the smaller of the number
  of turns of the partition and the limit; it is in ascending \<open>created_at\<close> order; its
  turns are turns of the partition, and every turn of the partition left out is no newer
  than any turn returned. When the turns were appended at strictly increasing times, the
  result is the suffix of that length of the appended sequence.
\<close>

theorem recent_returns_last_turns:
  assumes nonneg: "0 \<le> limit"
  shows "\<exists>res. get_short_term_messages w uid sid limit = Inr res \<and>
           res = rev (take (nat limit) (sort_desc created_at (session_turns w uid sid))) \<and>
           int (length res) = min (int (length (session_turns w uid sid))) limit \<and>
           sorted (map created_at res) \<and>
           mset res \<subseteq># mset (session_turns w uid sid) \<and>
           (\<forall>a \<in># mset (session_turns w uid sid) - mset res.
              \<forall>b \<in> set res. created_at a \<le> created_at b) \<and>
           (sorted_wrt (\<lambda>a b. created_at a < created_at b) (session_turns w uid sid) \<longrightarrow>
              res = drop (length (session_turns w uid sid) - nat limit) (session_turns w uid sid))"
proof -
  define part where "part = session_turns w uid sid"
  define s where "s = sort_desc created_at part"
  define res where "res = rev (take (nat limit) s)"
  have run: "get_short_term_messages w uid sid limit = Inr res"
    using nonneg by (simp add: get_short_term_messages_nonneg res_def s_def part_def session_turns_def)
  have len: "int (length res) = min (int (length part)) limit"
  proof -
    have "length res = min (length part) (nat limit)"
      by (simp add: res_def s_def length_sort_desc)
    then show ?thesis using nonneg by linarith
  qed
  have desc: "sorted_wrt (\<lambda>a b. created_at b \<le> created_at a) s"
    unfolding s_def by (rule sorted_sort_desc)
  have asc: "sorted (map created_at res)"
    using sorted_wrt_take [OF desc, of "nat limit"]
    by (simp add: res_def sorted_map sorted_wrt_rev)
  have sub: "mset res \<subseteq># mset part"
    using mset_take_sub [of "nat limit" s] by (simp add: res_def s_def mset_sort_desc)
  have rest: "mset part - mset res = mset (drop (nat limit) s)"
    using mset_minus_take [of s "nat limit"] by (simp add: res_def s_def mset_sort_desc)
  have older: "\<forall>a \<in># mset part - mset res. \<forall>b \<in> set res. created_at a \<le> created_at b"
  proof -
    have "set_mset (mset part - mset res) = set (drop (nat limit) s)"
      using rest by simp
    moreover have "set res = set (take (nat limit) s)"
      by (simp add: res_def)
    ultimately show ?thesis
      using sorted_desc_take_drop [OF desc, of "nat limit"] by blast
  qed
  have suffix: "res = drop (length part - nat limit) part"
    if "sorted_wrt (\<lambda>a b. created_at a < created_at b) part"
    using sort_desc_increasing [OF that] by (simp add: res_def s_def take_rev)
  show ?thesis
    using run len asc sub older suffix unfolding part_def s_def res_def by blast
qed

theorem recent_returns_last_turns_witness:
  "(0::int) \<le> 2 \<and>
   get_short_term_messages ledger_sample ''u'' (Some ''s'') 2 =
     Inr [\<lparr>user_id = ''u'', session_id = Some ''s'', created_at = 2, role = ''assistant'', content = ''b''\<rparr>,
          \<lparr>user_id = ''u'', session_id = Some ''s'', created_at = 4, role = ''user'', content = ''c''\<rparr>]"
proof -
  have h: "(0::int) \<le> 2" by simp
  show ?thesis
    using recent_returns_last_turns [OF h, of ledger_sample "''u''" "Some ''s''"]
    by (simp add: ledger_sample_def session_turns_def in_session_def sort_desc_def)
qed

section \<open>Episodic extraction and importance\<close>

lemma str_in_sublist: "str_in w s = sublist w s"
  by (induction s) (simp_all add: sublist_Cons_right)

lemma list_ex_str_in: "list_ex (\<lambda>word. str_in word s) ks = (\<exists>k \<in> set ks. sublist k s)"
  by (simp add: list_ex_iff str_in_sublist)

lemma importance_score_cases:
  "importance_score s =
     (if (\<exists>k \<in> set high_keywords. sublist k (lower s)) then 0.8
      else if (\<exists>k \<in> set mid_keywords. sublist k (lower s)) then 0.6 else 0.5)"
  by (simp add: importance_score_def list_ex_str_in)

lemma importance_score_gate: "importance_score s > 0.4"
  by (simp add: importance_score_def)

lemma get_embedding_keeps:
  "messages (snd (get_embedding ev w t)) = messages w"
  "summaries (snd (get_embedding ev w t)) = summaries w"
  "episodes (snd (get_embedding ev w t)) = episodes w"
  "clock_reads (snd (get_embedding ev w t)) = clock_reads w"
  by (simp_all add: get_embedding_def split: sum.splits)

lemma extract_loop_effect:
  "\<exists>new. fst (extract_loop ev uid sid ps facts w) = facts @ new \<and>
         episodes (snd (extract_loop ev uid sid ps facts w)) = episodes w @ new \<and>
         messages (snd (extract_loop ev uid sid ps facts w)) = messages w \<and>
         summaries (snd (extract_loop ev uid sid ps facts w)) = summaries w \<and>
         map fact new = filter length_ok (map strip ps) \<and>
         (\<forall>e \<in> set new. importance e = importance_score (fact e) \<and>
                          user_id e = uid \<and> session_id e = sid)"
proof (induction ps arbitrary: facts w)
  case Nil
  show ?case by simp
next
  case (Cons p ps)
  show ?case
  proof (cases "length_ok (strip p)")
    case False
    then have "extract_loop ev uid sid (p # ps) facts w = extract_loop ev uid sid ps facts w"
      by (auto simp: length_ok_def Let_def)
    then show ?thesis using Cons.IH [of facts w] False by simp
  next
    case True
    define w1 where "w1 = snd (get_embedding ev w (strip p))"
    define ep where "ep = \<lparr>user_id = uid, session_id = sid,
        created_at = utcnow ev (clock_reads w1), fact = strip p,
        importance = importance_score (strip p),
        embedding = fst (get_embedding ev w (strip p))\<rparr>"
    define w2 where "w2 = w1\<lparr>episodes := episodes w1 @ [ep], clock_reads := clock_reads w1 + 1\<rparr>"
    have step: "extract_loop ev uid sid (p # ps) facts w =
                  extract_loop ev uid sid ps (facts @ [ep]) w2"
      using True importance_score_gate [of "strip p"]
      by (simp add: length_ok_def Let_def split_beta w1_def ep_def w2_def)
    obtain new where new:
      "fst (extract_loop ev uid sid ps (facts @ [ep]) w2) = (facts @ [ep]) @ new"
      "episodes (snd (extract_loop ev uid sid ps (facts @ [ep]) w2)) = episodes w2 @ new"
      "messages (snd (extract_loop ev uid sid ps (facts @ [ep]) w2)) = messages w2"
      "summaries (snd (extract_loop ev uid sid ps (facts @ [ep]) w2)) = summaries w2"
      "map fact new = filter length_ok (map strip ps)"
      "\<forall>e \<in> set new. importance e = importance_score (fact e) \<and>
                          user_id e = uid \<and> session_id e = sid"
      using Cons.IH [of "facts @ [ep]" w2] by blast
    have w2_parts: "episodes w2 = episodes w @ [ep]" "messages w2 = messages w"
      "summaries w2 = summaries w"
      by (simp_all add: w2_def w1_def get_embedding_keeps)
    have ep_parts: "fact ep = strip p" "importance ep = importance_score (strip p)"
      "user_id ep = uid" "session_id ep = sid"
      by (simp_all add: ep_def)
    show ?thesis
      unfolding step
      by (rule exI [of _ "ep # new"]) (use new w2_parts ep_parts True in simp)
  qed
qed

text \<open>
  Claim C4. The facts of the episodes that \<open>extract_episodes\<close> returns are exactly the
  trimmed pieces of the message (split at every full stop) whose length is strictly between
  10 and 200, in order; these episodes are exactly what the call appends to the episode
  collection; so no persisted fact has length at most 10 or at least 200.
\<close>

theorem extract_episodes_length_gate:
  "map fact (fst (extract_episodes ev w uid sid message)) =
     filter (\<lambda>s. 10 < length s \<and> length s < 200) (map strip (split_on CHR ''.'' message)) \<and>
   episodes (snd (extract_episodes ev w uid sid message)) =
     episodes w @ fst (extract_episodes ev w uid sid message) \<and>
   (\<forall>e \<in> set (fst (extract_episodes ev w uid sid message)).
      10 < length (fact e) \<and> length (fact e) < 200)"
proof -
  obtain new where new:
    "fst (extract_episodes ev w uid sid message) = new"
    "episodes (snd (extract_episodes ev w uid sid message)) = episodes w @ new"
    "map fact new = filter length_ok (map strip (split_on CHR ''.'' message))"
    using extract_loop_effect [of ev uid sid "split_on CHR ''.'' message" "[]" w]
    by (auto simp: extract_episodes_def)
  have "\<forall>s \<in> set (map fact new). length_ok s" using new(3) by simp
  then have "\<forall>e \<in> set new. 10 < length (fact e) \<and> length (fact e) < 200"
    by (simp add: length_ok_def)
  moreover have "length_ok = (\<lambda>s. 10 < length s \<and> length s < 200)"
    by (rule ext) (simp add: length_ok_def)
  ultimately show ?thesis using new by simp
qed



theorem extract_episodes_length_gate_witness:
  "map fact (fst (extract_episodes sample_env empty_world ''u'' (Some ''s'')
       ''I love spicy food. Hi. I visited Tokyo last year.'')) =
     [''I love spicy food'', ''I visited Tokyo last year'']"
  using extract_episodes_length_gate [of sample_env empty_world "''u''" "Some ''s''"
       "''I love spicy food. Hi. I visited Tokyo last year.''"]
  by (simp add: split_on_def strip_def is_space_def)



lemmas importance_eval =
  importance_score_def high_keywords_def mid_keywords_def lower_def lower_char_def
  upper_chars_def lower_chars_def

lemma extract_episodes_importance:
  "\<forall>e \<in> set (fst (extract_episodes ev w uid sid message)).
     importance e = importance_score (fact e)"
  using extract_loop_effect [of ev uid sid "split_on CHR ''.'' message" "[]" w]
  by (auto simp: extract_episodes_def)

text \<open>
  Claim C5. The score of a sentence is a function of the sentence alone: 0.8 when its
  lower-cased text contains one of the six words of the first list, else 0.6 when it contains
  one of the four words of the second list, else 0.5. The three sentences of the
  specification score 0.8, 0.6 and 0.5, and every extracted episode carries the score of
  its fact.
\<close>

theorem importance_buckets:
  "importance_score s =
     (if (\<exists>k \<in> set [''important'', ''remember'', ''always'', ''never'', ''love'', ''hate''].
            sublist k (lower s)) then 0.8
      else if (\<exists>k \<in> set [''like'', ''prefer'', ''want'', ''need'']. sublist k (lower s)) then 0.6
      else 0.5) \<and>
   importance_score ''I always remember trips'' = 0.8 \<and>
   importance_score ''I like coffee'' = 0.6 \<and>
   importance_score ''It is sunny'' = 0.5 \<and>
   (\<forall>e \<in> set (fst (extract_episodes ev w uid sid message)).
      importance e = importance_score (fact e))"
proof -
  have general: "importance_score s =
     (if (\<exists>k \<in> set [''important'', ''remember'', ''always'', ''never'', ''love'', ''hate''].
            sublist k (lower s)) then 0.8
      else if (\<exists>k \<in> set [''like'', ''prefer'', ''want'', ''need'']. sublist k (lower s)) then 0.6
      else 0.5)"
    using importance_score_cases [of s] by (simp only: high_keywords_def mid_keywords_def)
  have e1: "importance_score ''I always remember trips'' = 0.8"
    by (simp add: importance_eval)
  have e2: "importance_score ''I like coffee'' = 0.6"
    by (simp add: importance_eval)
  have e3: "importance_score ''It is sunny'' = 0.5"
    by (simp add: importance_eval)
  show ?thesis
    using general e1 e2 e3 extract_episodes_importance [of ev w uid sid message] by blast
qed

theorem importance_buckets_witness:
  "map importance (fst (extract_episodes sample_env empty_world ''u'' (Some ''s'')
       ''I always remember trips. I like coffee. It is sunny.'')) = [0.8, 0.6, 0.5]"
proof -
  have facts: "map fact (fst (extract_episodes sample_env empty_world ''u'' (Some ''s'')
       ''I always remember trips. I like coffee. It is sunny.'')) =
     [''I always remember trips'', ''I like coffee'', ''It is sunny'']"
    using extract_loop_effect [of sample_env "''u''" "Some ''s''"
        "split_on CHR ''.'' ''I always remember trips. I like coffee. It is sunny.''" "[]" empty_world]
    by (auto simp: extract_episodes_def length_ok_def split_on_def strip_def is_space_def)
  have "map importance (fst (extract_episodes sample_env empty_world ''u'' (Some ''s'')
       ''I always remember trips. I like coffee. It is sunny.'')) =
     map importance_score (map fact (fst (extract_episodes sample_env empty_world ''u'' (Some ''s'')
       ''I always remember trips. I like coffee. It is sunny.'')))"
    using importance_buckets [of "''x''" sample_env empty_world "''u''" "Some ''s''"
       "''I always remember trips. I like coffee. It is sunny.''"]
    by simp
  also have "\<dots> = [0.8, 0.6, 0.5]"
    unfolding facts
    using importance_buckets [of "''x''" sample_env empty_world "''u''" "Some ''s''"
       "''I always remember trips. I like coffee. It is sunny.''"]
    by simp
  finally show ?thesis .
qed

lemma lower_append: "lower (a @ b) = lower a @ lower b"
  by (simp add: lower_def)

lemma sublist_inside: "sublist k w \<Longrightarrow> sublist k (pre @ w @ post)"
proof -
  assume "sublist k w"
  then obtain a b where "w = a @ k @ b" by (auto simp: sublist_def)
  then have "pre @ w @ post = (pre @ a) @ k @ (b @ post)" by simp
  then show ?thesis unfolding sublist_def by blast
qed

lemma high_keyword_wins:
  "k \<in> set high_keywords \<Longrightarrow> sublist k (lower s) \<Longrightarrow> importance_score s = 0.8"
  using importance_score_cases [of s] by auto

lemma mid_keyword_scores:
  "k \<in> set mid_keywords \<Longrightarrow> sublist k (lower s) \<Longrightarrow>
   importance_score s = (if (\<exists>h \<in> set high_keywords. sublist h (lower s)) then 0.8 else 0.6)"
  using importance_score_cases [of s] by auto

text \<open>
  Claim C10. Keywords are matched as substrings of the lower-cased sentence, not as words:
  a keyword of the first list inside any word of the sentence gives 0.8, and a keyword of
  the second list inside any word gives 0.6 unless a keyword of the first list occurs too.
  So every sentence containing \<open>nevertheless\<close> scores 0.8, and a sentence containing
  \<open>unlikely\<close> scores 0.6 when it has no keyword of the first list.
\<close>

theorem keyword_matches_inside_words:
  "(\<forall>k \<in> set high_keywords. sublist k (lower word) \<longrightarrow>
      importance_score (pre @ word @ post) = 0.8) \<and>
   (\<forall>k \<in> set mid_keywords. sublist k (lower word) \<longrightarrow>
      importance_score (pre @ word @ post) =
        (if (\<exists>h \<in> set high_keywords. sublist h (lower (pre @ word @ post)))
         then 0.8 else 0.6)) \<and>
   importance_score (pre @ ''nevertheless'' @ post) = 0.8 \<and>
   importance_score (pre @ ''unlikely'' @ post) =
     (if (\<exists>h \<in> set high_keywords. sublist h (lower (pre @ ''unlikely'' @ post)))
      then 0.8 else 0.6) \<and>
   importance_score ''It is unlikely to rain'' = 0.6 \<and>
   importance_score ''Nevertheless we went'' = 0.8"
proof -
  have inside: "sublist k (lower (pre @ w @ post))" if "sublist k (lower w)" for k w
    using sublist_inside [OF that, of "lower pre" "lower post"] by (simp add: lower_append)
  have high: "\<forall>k \<in> set high_keywords. sublist k (lower word) \<longrightarrow>
      importance_score (pre @ word @ post) = 0.8"
    using inside high_keyword_wins by blast
  have mid: "\<forall>k \<in> set mid_keywords. sublist k (lower word) \<longrightarrow>
      importance_score (pre @ word @ post) =
        (if (\<exists>h \<in> set high_keywords. sublist h (lower (pre @ word @ post)))
         then 0.8 else 0.6)"
    using inside mid_keyword_scores by blast
  have never: "sublist ''never'' (lower ''nevertheless'')"
    unfolding str_in_sublist [symmetric]
    by (simp add: lower_def lower_char_def upper_chars_def lower_chars_def)
  have like: "sublist ''like'' (lower ''unlikely'')"
    unfolding str_in_sublist [symmetric]
    by (simp add: lower_def lower_char_def upper_chars_def lower_chars_def)
  have n: "importance_score (pre @ ''nevertheless'' @ post) = 0.8"
    using high_keyword_wins [OF _ inside [OF never]] by (simp add: high_keywords_def)
  have u: "importance_score (pre @ ''unlikely'' @ post) =
     (if (\<exists>h \<in> set high_keywords. sublist h (lower (pre @ ''unlikely'' @ post)))
      then 0.8 else 0.6)"
    using mid_keyword_scores [OF _ inside [OF like]] by (simp add: mid_keywords_def)
  have e1: "importance_score ''It is unlikely to rain'' = 0.6"
    by (simp add: importance_eval)
  have e2: "importance_score ''Nevertheless we went'' = 0.8"
    by (simp add: importance_eval)
  show ?thesis using high mid n u e1 e2 by blast
qed

theorem keyword_matches_inside_words_witness:
  "''like'' \<in> set mid_keywords \<and> sublist ''like'' (lower ''UNLIKELY'') \<and>
   \<not> (\<exists>h \<in> set high_keywords. sublist h (lower (''It is '' @ ''UNLIKELY'' @ '' to rain''))) \<and>
   importance_score (''It is '' @ ''UNLIKELY'' @ '' to rain'') = 0.6 \<and>
   ''never'' \<in> set high_keywords \<and> sublist ''never'' (lower ''nevertheless'') \<and>
   importance_score (''We went '' @ ''nevertheless'' @ '' today'') = 0.8"
proof -
  have m: "''like'' \<in> set mid_keywords" by (simp add: mid_keywords_def)
  have h: "''never'' \<in> set high_keywords" by (simp add: high_keywords_def)
  have like: "sublist ''like'' (lower ''UNLIKELY'')"
    unfolding str_in_sublist [symmetric]
    by (simp add: lower_def lower_char_def upper_chars_def lower_chars_def)
  have never: "sublist ''never'' (lower ''nevertheless'')"
    unfolding str_in_sublist [symmetric]
    by (simp add: lower_def lower_char_def upper_chars_def lower_chars_def)
  have none: "\<not> (\<exists>h \<in> set high_keywords. sublist h (lower (''It is '' @ ''UNLIKELY'' @ '' to rain'')))"
    unfolding str_in_sublist [symmetric]
    by (simp add: high_keywords_def lower_def lower_char_def upper_chars_def lower_chars_def)
  show ?thesis
    using keyword_matches_inside_words [of "''UNLIKELY''" "''It is ''" "'' to rain''"]
      keyword_matches_inside_words [of "''nevertheless''" "''We went ''" "'' today''"]
      m h like never none
    by auto
qed

section \<open>Ranking\<close>

lemma filter_take_prefix: "prefix (filter P (take k xs)) (filter P xs)"
proof -
  have "filter P xs = filter P (take k xs) @ filter P (drop k xs)"
    by (metis append_take_drop_id filter_append)
  then show ?thesis by (simp add: prefix_def)
qed

lemma get_relevant_episodes_nonneg:
  "0 \<le> top_k \<Longrightarrow>
   fst (get_relevant_episodes ev w uid message top_k) =
     take (nat top_k) (sort_desc similarity (scored_scan ev w uid message))"
  by (simp add: get_relevant_episodes_def scored_scan_def py_slice_to_def split_beta
        get_embedding_keeps)

text \<open>
  Claim C6. For a \<open>top_k\<close> that is not negative, \<open>get_relevant_episodes\<close> returns
  as many episodes as the smaller of \<open>top_k\<close> and the number of stored episodes of the
  user, in descending similarity; among episodes of any one similarity value the order of
  the scan is kept; the episodes returned are episodes of the scan, and none left out has a
  greater similarity than one returned.
\<close>

theorem rank_returns_top_k:
  assumes nonneg: "0 \<le> top_k"
  shows "int (length (fst (get_relevant_episodes ev w uid message top_k))) =
           min (int (length (filter (of_user uid) (episodes w)))) top_k \<and>
         sorted_wrt (\<lambda>a b. similarity b \<le> similarity a)
           (fst (get_relevant_episodes ev w uid message top_k)) \<and>
         (\<forall>s. prefix (filter (\<lambda>e. similarity e = s)
                          (fst (get_relevant_episodes ev w uid message top_k)))
                       (filter (\<lambda>e. similarity e = s) (scored_scan ev w uid message))) \<and>
         mset (fst (get_relevant_episodes ev w uid message top_k)) \<subseteq>#
           mset (scored_scan ev w uid message) \<and>
         (\<forall>a \<in># mset (scored_scan ev w uid message) -
                  mset (fst (get_relevant_episodes ev w uid message top_k)).
            \<forall>b \<in> set (fst (get_relevant_episodes ev w uid message top_k)).
              similarity a \<le> similarity b)"
proof -
  define scan where "scan = scored_scan ev w uid message"
  define s where "s = sort_desc similarity scan"
  define res where "res = fst (get_relevant_episodes ev w uid message top_k)"
  have res: "res = take (nat top_k) s"
    using nonneg by (simp add: res_def s_def scan_def get_relevant_episodes_nonneg)
  have n: "length scan = length (filter (of_user uid) (episodes w))"
    by (simp add: scan_def scored_scan_def)
  have len: "int (length res) = min (int (length (filter (of_user uid) (episodes w)))) top_k"
  proof -
    have "length res = min (length scan) (nat top_k)"
      by (simp add: res s_def length_sort_desc)
    then show ?thesis using nonneg n by linarith
  qed
  have desc: "sorted_wrt (\<lambda>a b. similarity b \<le> similarity a) s"
    unfolding s_def by (rule sorted_sort_desc)
  have sorted_res: "sorted_wrt (\<lambda>a b. similarity b \<le> similarity a) res"
    unfolding res using desc by (rule sorted_wrt_take)
  have stable: "prefix (filter (\<lambda>e. similarity e = v) res) (filter (\<lambda>e. similarity e = v) scan)"
    for v
    using filter_take_prefix [of "\<lambda>e. similarity e = v" "nat top_k" s]
    by (simp add: res s_def sort_desc_stable)
  have sub: "mset res \<subseteq># mset scan"
    using mset_take_sub [of "nat top_k" s] by (simp add: res s_def mset_sort_desc)
  have rest: "mset scan - mset res = mset (drop (nat top_k) s)"
    using mset_minus_take [of s "nat top_k"] by (simp add: res s_def mset_sort_desc)
  have lower: "\<forall>a \<in># mset scan - mset res. \<forall>b \<in> set res. similarity a \<le> similarity b"
  proof -
    have "set_mset (mset scan - mset res) = set (drop (nat top_k) s)"
      using rest by simp
    then show ?thesis
      using sorted_desc_take_drop [OF desc, of "nat top_k"] unfolding res by blast
  qed
  show ?thesis
    using len sorted_res stable sub lower unfolding res_def scan_def by blast
qed

theorem rank_returns_top_k_witness:
  "(0::int) \<le> 5 \<and>
   map fact (fst (get_relevant_episodes dot_env episode_sample ''u'' ''q'' 5)) =
     [''b'', ''a'', ''c''] \<and>
   map similarity (fst (get_relevant_episodes dot_env episode_sample ''u'' ''q'' 5)) =
     [2, 1, 1]"
proof -
  have h: "(0::int) \<le> 5" by simp
  show ?thesis
    using rank_returns_top_k [OF h, of dot_env episode_sample "''u''" "''q''"]
    by (simp add: get_relevant_episodes_def get_embedding_def dot_env_def episode_sample_def
          of_user_def with_similarity_def cosine_similarity_score_def sort_desc_def
          py_slice_to_def episode.extend_def scored_episode.fields_def)
qed

section \<open>Summaries\<close>

lemma window_empty_iff:
  "(take 20 (sort_desc created_at (filter P xs)) = []) = (filter P xs = [])"
  using length_sort_desc [of created_at "filter P xs"] by (auto simp: take_eq_Nil)

text \<open>
  Claim C8. When the session has no turn in the ledger, \<open>generate_session_summary\<close>
  returns the empty string and leaves the database as it was, whatever the generation
  endpoint would answer.
\<close>

theorem summarize_session_empty_window:
  assumes empty: "session_turns w uid sid = []"
  shows "generate_session_summary ev w uid sid = ('''', w)"
  using empty
  by (simp add: generate_session_summary_def session_turns_def sort_desc_def)

theorem summarize_session_empty_window_witness:
  "session_turns ledger_sample ''u'' (Some ''other'') = [] \<and>
   generate_session_summary sample_env ledger_sample ''u'' (Some ''other'') = ('''', ledger_sample)"
proof -
  have h: "session_turns ledger_sample ''u'' (Some ''other'') = []"
    by (simp add: session_turns_def ledger_sample_def in_session_def)
  show ?thesis
    using h summarize_session_empty_window [OF h, of sample_env] by simp
qed

section \<open>The chat turn\<close>

lemma save_message_parts:
  "messages (save_message ev w uid sid r c) =
     messages w @ [\<lparr>user_id = uid, session_id = sid, created_at = utcnow ev (clock_reads w),
                    role = r, content = c\<rparr>]"
  "summaries (save_message ev w uid sid r c) = summaries w"
  "episodes (save_message ev w uid sid r c) = episodes w"
  by (simp_all add: save_message_def)

lemma session_turns_save:
  "session_turns (save_message ev w uid sid r c) uid sid =
     session_turns w uid sid @
       [\<lparr>user_id = uid, session_id = sid, created_at = utcnow ev (clock_reads w),
         role = r, content = c\<rparr>]"
  by (simp add: session_turns_def save_message_parts in_session_def)

lemma extract_episodes_keeps:
  "messages (snd (extract_episodes ev w uid sid m)) = messages w"
  "summaries (snd (extract_episodes ev w uid sid m)) = summaries w"
  using extract_loop_effect [of ev uid sid "split_on CHR ''.'' m" "[]" w]
  by (auto simp: extract_episodes_def)

lemma get_relevant_episodes_keeps:
  "messages (snd (get_relevant_episodes ev w uid m k)) = messages w"
  "summaries (snd (get_relevant_episodes ev w uid m k)) = summaries w"
  by (simp_all add: get_relevant_episodes_def split_beta get_embedding_keeps)

lemma generate_session_summary_writes:
  assumes "session_turns w uid sid \<noteq> []"
  shows "\<exists>d. summaries (snd (generate_session_summary ev w uid sid)) = summaries w @ [d] \<and>
             scope d = ''session'' \<and> session_id d = sid \<and> user_id d = uid"
  using assms window_empty_iff [of "in_session uid sid" "messages w"]
  by (simp add: generate_session_summary_def session_turns_def Let_def)

lemma generate_session_summary_messages:
  "messages (snd (generate_session_summary ev w uid sid)) = messages w"
  by (simp add: generate_session_summary_def Let_def)

lemma recent_five_empty_iff:
  "(take 5 (sort_desc created_at (filter P xs)) = []) = (filter P xs = [])"
  using length_sort_desc [of created_at "filter P xs"] by (auto simp: take_eq_Nil)

lemma update_lifetime_summary_writes:
  assumes "filter (\<lambda>d. user_id d = uid \<and> scope d = ''session'') (summaries w) \<noteq> []"
  shows "\<exists>d. summaries (snd (update_lifetime_summary ev w uid)) = summaries w @ [d] \<and>
             scope d = ''user'' \<and> session_id d = None \<and> user_id d = uid"
  using assms recent_five_empty_iff [of "\<lambda>d. user_id d = uid \<and> scope d = ''session''" "summaries w"]
  by (simp add: update_lifetime_summary_def Let_def)

lemma update_lifetime_summary_messages:
  "messages (snd (update_lifetime_summary ev w uid)) = messages w"
  by (simp add: update_lifetime_summary_def Let_def)

lemma chat_effect:
  fixes ev :: env and w :: world and request :: chat_request
  defines "uid \<equiv> req_user_id request"
    and "sid \<equiv> req_session_id request"
    and "msg \<equiv> req_message request"
  defines "window \<equiv> min 16 (length (session_turns w uid sid) + 1)"
  shows "\<exists>resp p t dS dL.
           fst (chat ev w request) = Inr resp \<and>
           reply resp = get_ollama_response ev p \<and>
           short_term_count (memory resp) = window \<and>
           messages (snd (chat ev w request)) =
             messages w @
               [\<lparr>user_id = uid, session_id = sid, created_at = utcnow ev (clock_reads w),
                 role = ''user'', content = msg\<rparr>,
                \<lparr>user_id = uid, session_id = sid, created_at = t,
                 role = ''assistant'', content = reply resp\<rparr>] \<and>
           summaries (snd (chat ev w request)) =
             summaries w @
               (if (user_turns w uid sid + 1) mod 5 = 0
                then (if window mod 5 = 0 then [dS, dL] else [dS]) else []) \<and>
           scope dS = ''session'' \<and> session_id dS = sid \<and> user_id dS = uid \<and>
           scope dL = ''user'' \<and> session_id dL = None \<and> user_id dL = uid"
proof -
  define w1 where "w1 = save_message ev w uid sid ''user'' msg"
  define stm where "stm = rev (take 16 (sort_desc created_at (session_turns w1 uid sid)))"
  define lt where "lt = get_long_term_summaries w1 uid sid"
  define w2 where "w2 = snd (extract_episodes ev w1 uid sid msg)"
  define rel where "rel = fst (get_relevant_episodes ev w2 uid msg TOP_K_EPISODES)"
  define w3 where "w3 = snd (get_relevant_episodes ev w2 uid msg TOP_K_EPISODES)"
  define p where "p = build_prompt system_primer lt stm msg rel"
  define r where "r = get_ollama_response ev p"
  define w4 where "w4 = save_message ev w3 uid sid ''assistant'' r"
  define wS where "wS = snd (generate_session_summary ev w4 uid sid)"
  define w5 where "w5 = (if should_summarize w4 uid sid
      then (if length stm mod 5 = 0 then snd (update_lifetime_summary ev wS uid) else wS)
      else w4)"
  define resp where "resp = \<lparr>reply = r,
      memory = \<lparr>short_term_count = length stm, long_term_summary = lifetime lt,
                session_summary = session lt,
                episodic_facts = map (\<lambda>ep. (fact ep, importance ep)) rel\<rparr>\<rparr>"
  have fetch: "get_short_term_messages w1 uid sid SHORT_TERM_N = Inr stm"
    by (simp add: SHORT_TERM_N_def get_short_term_messages_nonneg stm_def session_turns_def)
  have run: "chat ev w request = (Inr resp, w5)"
    unfolding w5_def resp_def wS_def w4_def r_def p_def w3_def rel_def w2_def lt_def chat_def
    using fetch
    by (simp add: Let_def split_beta uid_def sid_def msg_def w1_def stm_def)
  have turns1: "session_turns w1 uid sid = session_turns w uid sid @
       [\<lparr>user_id = uid, session_id = sid, created_at = utcnow ev (clock_reads w),
         role = ''user'', content = msg\<rparr>]"
    by (simp add: w1_def session_turns_save)
  have len: "length stm = window"
    by (simp add: stm_def length_sort_desc turns1 window_def)
  have m3: "messages w3 = messages w1" "summaries w3 = summaries w1"
    by (simp_all add: w3_def w2_def get_relevant_episodes_keeps extract_episodes_keeps)
  have m4: "messages w4 = messages w @
       [\<lparr>user_id = uid, session_id = sid, created_at = utcnow ev (clock_reads w),
         role = ''user'', content = msg\<rparr>,
        \<lparr>user_id = uid, session_id = sid, created_at = utcnow ev (clock_reads w3),
         role = ''assistant'', content = r\<rparr>]"
    by (simp add: w4_def save_message_parts m3 w1_def)
  have s4: "summaries w4 = summaries w"
    by (simp add: w4_def save_message_parts m3 w1_def)
  have gate: "should_summarize w4 uid sid = ((user_turns w uid sid + 1) mod 5 = 0)"
    by (simp add: should_summarize_def SUMMARIZE_EVERY_USER_MSGS_def m4 user_turns_def
          session_turns_def in_session_def)
  have nonempty: "session_turns w4 uid sid \<noteq> []"
    by (simp add: session_turns_def m4 in_session_def)
  obtain dS where dS: "summaries wS = summaries w @ [dS]"
      "scope dS = ''session''" "session_id dS = sid" "user_id dS = uid"
    using generate_session_summary_writes [OF nonempty, of ev] s4 unfolding wS_def by auto
  have "filter (\<lambda>d. user_id d = uid \<and> scope d = ''session'') (summaries wS) \<noteq> []"
    using dS by simp
  then obtain dL where dL: "summaries (snd (update_lifetime_summary ev wS uid)) = summaries wS @ [dL]"
      "scope dL = ''user''" "session_id dL = None" "user_id dL = uid"
    using update_lifetime_summary_writes [of uid wS ev] by auto
  have m5: "messages w5 = messages w4"
    by (simp add: w5_def wS_def update_lifetime_summary_messages generate_session_summary_messages)
  have s5: "summaries w5 = summaries w @
               (if (user_turns w uid sid + 1) mod 5 = 0
                then (if window mod 5 = 0 then [dS, dL] else [dS]) else [])"
    using dS(1) dL(1) by (simp add: w5_def gate len s4)
  have "fst (chat ev w request) = Inr resp \<and>
           reply resp = get_ollama_response ev p \<and>
           short_term_count (memory resp) = window \<and>
           messages (snd (chat ev w request)) =
             messages w @
               [\<lparr>user_id = uid, session_id = sid, created_at = utcnow ev (clock_reads w),
                 role = ''user'', content = msg\<rparr>,
                \<lparr>user_id = uid, session_id = sid, created_at = utcnow ev (clock_reads w3),
                 role = ''assistant'', content = reply resp\<rparr>] \<and>
           summaries (snd (chat ev w request)) =
             summaries w @
               (if (user_turns w uid sid + 1) mod 5 = 0
                then (if window mod 5 = 0 then [dS, dL] else [dS]) else []) \<and>
           scope dS = ''session'' \<and> session_id dS = sid \<and> user_id dS = uid \<and>
           scope dL = ''user'' \<and> session_id dL = None \<and> user_id dL = uid"
    using dS dL by (simp add: run m5 m4 s5 resp_def r_def len)
  then show ?thesis by blast
qed


lemmas sample_eval =
  user_turns_def session_turns_def in_session_def turn_def old_digest_def hi_request_def
  two_turns_world_def four_turns_world_def

text \<open>
  Claim C1, as the code has it. A chat turn leaves the digests already stored in place and
  appends: nothing, when the number of user turns of the session (the new one included) is
  not a multiple of \<open>SUMMARIZE_EVERY_USER_MSGS\<close>; otherwise a session digest, followed by
  a digest of scope \<open>user\<close> exactly when the length of the short-term window fetched earlier
  in the turn (at most 16, the new user turn included) is a multiple of 5. The second gate
  is tested only inside the first.
\<close>

theorem chat_summarization_gates:
  "take (length (summaries w)) (summaries (snd (chat ev w request))) = summaries w \<and>
   map scope (drop (length (summaries w)) (summaries (snd (chat ev w request)))) =
     (if (user_turns w (req_user_id request) (req_session_id request) + 1)
           mod SUMMARIZE_EVERY_USER_MSGS = 0
      then (if min 16 (length (session_turns w (req_user_id request) (req_session_id request)) + 1)
                 mod 5 = 0
            then [''session'', ''user''] else [''session''])
      else [])"
  using chat_effect [of ev w request] by (auto simp: SUMMARIZE_EVERY_USER_MSGS_def)

theorem chat_summarization_gates_witness:
  "map scope (summaries (snd (chat sample_env four_turns_world hi_request))) =
     [''session'', ''session'']"
proof -
  have "take 1 (summaries (snd (chat sample_env four_turns_world hi_request))) = [old_digest] \<and>
        map scope (drop 1 (summaries (snd (chat sample_env four_turns_world hi_request)))) =
          [''session'']"
    using chat_summarization_gates [of four_turns_world sample_env hi_request]
    by (simp add: sample_eval SUMMARIZE_EVERY_USER_MSGS_def)
  then have "map scope (take 1 (summaries (snd (chat sample_env four_turns_world hi_request))) @
                        drop 1 (summaries (snd (chat sample_env four_turns_world hi_request)))) =
             [''session'', ''session'']"
    unfolding map_append by (simp add: old_digest_def)
  then show ?thesis by simp
qed

text \<open>
  Claim C1 as stated fails: after two exchanges the third user message gives a window of
  length 5, so the second gate holds, while the session has three user turns, so the first
  gate does not. The turn writes no digest, although \<open>update_lifetime_summary\<close> would
  have written one.
\<close>

theorem lifetime_gate_alone_writes_nothing:
  "\<not> isl (fst (chat sample_env two_turns_world hi_request)) \<and>
   short_term_count (memory (projr (fst (chat sample_env two_turns_world hi_request)))) mod 5 = 0 \<and>
   \<not> should_summarize (snd (chat sample_env two_turns_world hi_request)) ''u'' (Some ''s'') \<and>
   summaries (snd (chat sample_env two_turns_world hi_request)) = summaries two_turns_world \<and>
   summaries (snd (update_lifetime_summary sample_env
                     (snd (chat sample_env two_turns_world hi_request)) ''u'')) \<noteq>
     summaries two_turns_world"
proof -
  define w' where "w' = snd (chat sample_env two_turns_world hi_request)"
  obtain resp t where eff:
    "fst (chat sample_env two_turns_world hi_request) = Inr resp"
    "short_term_count (memory resp) = 5"
    "messages w' = messages two_turns_world @
       [turn (utcnow sample_env 5) ''user'' ''hi'', turn t ''assistant'' (reply resp)]"
    "summaries w' = summaries two_turns_world"
    using chat_effect [of sample_env two_turns_world hi_request] unfolding w'_def
    by (auto simp: sample_eval)
  have gate: "\<not> should_summarize w' ''u'' (Some ''s'')"
    by (simp add: should_summarize_def SUMMARIZE_EVERY_USER_MSGS_def eff(3) sample_eval)
  have "filter (\<lambda>d. user_id d = ''u'' \<and> scope d = ''session'') (summaries w') \<noteq> []"
    by (simp add: eff(4) sample_eval)
  then have "summaries (snd (update_lifetime_summary sample_env w' ''u'')) \<noteq> summaries w'"
    using update_lifetime_summary_writes [of "''u''" w' sample_env] by auto
  then show ?thesis
    using eff gate unfolding w'_def by simp
qed




lemma chat_digests:
  "\<exists>dS dL new. summaries (snd (chat ev w request)) = summaries w @ new \<and>
      set new \<subseteq> {dS, dL} \<and>
      scope dS = ''session'' \<and> session_id dS = req_session_id request \<and>
      user_id dS = req_user_id request \<and>
      scope dL = ''user'' \<and> session_id dL = None \<and> user_id dL = req_user_id request"
proof -
  define A where "A = ((user_turns w (req_user_id request) (req_session_id request) + 1) mod 5 = 0)"
  define B where "B = (min 16 (length (session_turns w (req_user_id request)
                          (req_session_id request)) + 1) mod 5 = 0)"
  obtain dS dL where eff:
      "summaries (snd (chat ev w request)) =
         summaries w @ (if A then (if B then [dS, dL] else [dS]) else [])"
      "scope dS = ''session''" "session_id dS = req_session_id request"
      "user_id dS = req_user_id request"
      "scope dL = ''user''" "session_id dL = None" "user_id dL = req_user_id request"
    using chat_effect [of ev w request] unfolding A_def B_def by blast
  define new where "new = (if A then (if B then [dS, dL] else [dS]) else [])"
  have "set new \<subseteq> {dS, dL}" by (auto simp: new_def)
  then show ?thesis using eff unfolding new_def [symmetric] by blast
qed

lemma generate_session_summary_new:
  "\<exists>new. summaries (snd (generate_session_summary ev w uid sid)) = summaries w @ new \<and>
      length new = (if session_turns w uid sid = [] then 0 else 1) \<and>
      (\<forall>d \<in> set new. scope d = ''session'' \<and> session_id d = sid \<and> user_id d = uid)"
proof (cases "session_turns w uid sid = []")
  case True
  then have "generate_session_summary ev w uid sid = ([], w)"
    by (simp add: generate_session_summary_def session_turns_def sort_desc_def)
  then show ?thesis using True by simp
next
  case False
  then obtain d where "summaries (snd (generate_session_summary ev w uid sid)) = summaries w @ [d]"
      "scope d = ''session''" "session_id d = sid" "user_id d = uid"
    using generate_session_summary_writes [of w uid sid ev] by blast
  then show ?thesis using False by (intro exI [of _ "[d]"]) simp
qed

lemma update_lifetime_summary_new:
  "\<exists>new. summaries (snd (update_lifetime_summary ev w uid)) = summaries w @ new \<and>
      length new =
        (if filter (\<lambda>d. user_id d = uid \<and> scope d = ''session'') (summaries w) = []
         then 0 else 1) \<and>
      (\<forall>d \<in> set new. scope d = ''user'' \<and> session_id d = None \<and> user_id d = uid)"
proof (cases "filter (\<lambda>d. user_id d = uid \<and> scope d = ''session'') (summaries w) = []")
  case True
  then have "update_lifetime_summary ev w uid = ([], w)"
    by (simp add: update_lifetime_summary_def sort_desc_def)
  then show ?thesis using True by simp
next
  case False
  then obtain d where "summaries (snd (update_lifetime_summary ev w uid)) = summaries w @ [d]"
      "scope d = ''user''" "session_id d = None" "user_id d = uid"
    using update_lifetime_summary_writes [of uid w ev] by blast
  then show ?thesis using False by (intro exI [of _ "[d]"]) simp
qed

text \<open>
  Claim C9, as the code has it. The stored scopes are \<open>session\<close> and \<open>user\<close>, the latter
  for the lifetime digest. What \<open>generate_session_summary\<close> appends for a session id is
  one digest of scope \<open>session\<close> carrying exactly that session id (none when the session
  has no turn); what \<open>update_lifetime_summary\<close> appends is one digest of scope \<open>user\<close>
  without a session id (none when the user has no session digest); a chat turn of a
  request that names its session appends only digests of these two kinds. So when every
  stored digest is a session digest with a session id or a \<open>user\<close> digest without one,
  the same holds after each of the three.
\<close>

theorem digest_scope_invariant:
  assumes inv: "\<forall>d \<in> set (summaries w). digest_ok d"
  shows "(\<exists>new. summaries (snd (generate_session_summary ev w uid (Some sid))) =
                   summaries w @ new \<and>
            length new = (if session_turns w uid (Some sid) = [] then 0 else 1) \<and>
            (\<forall>d \<in> set new. scope d = ''session'' \<and> session_id d = Some sid \<and>
                             user_id d = uid)) \<and>
         (\<exists>new. summaries (snd (update_lifetime_summary ev w uid)) = summaries w @ new \<and>
            length new =
              (if filter (\<lambda>d. user_id d = uid \<and> scope d = ''session'') (summaries w) = []
               then 0 else 1) \<and>
            (\<forall>d \<in> set new. scope d = ''user'' \<and> session_id d = None \<and> user_id d = uid)) \<and>
         (\<exists>new. summaries (snd (chat ev w
                    \<lparr>req_user_id = uid, req_session_id = Some sid, req_message = msg\<rparr>)) =
                   summaries w @ new \<and>
            (\<forall>d \<in> set new. user_id d = uid \<and>
               (scope d = ''session'' \<and> session_id d = Some sid \<or>
                scope d = ''user'' \<and> session_id d = None))) \<and>
         (\<forall>d \<in> set (summaries (snd (generate_session_summary ev w uid (Some sid)))).
            digest_ok d) \<and>
         (\<forall>d \<in> set (summaries (snd (update_lifetime_summary ev w uid))). digest_ok d) \<and>
         (\<forall>d \<in> set (summaries (snd (chat ev w
              \<lparr>req_user_id = uid, req_session_id = Some sid, req_message = msg\<rparr>))).
            digest_ok d)"
proof -
  define rq where "rq = \<lparr>req_user_id = uid, req_session_id = Some sid, req_message = msg\<rparr>"
  obtain newS where newS:
      "summaries (snd (generate_session_summary ev w uid (Some sid))) = summaries w @ newS"
      "length newS = (if session_turns w uid (Some sid) = [] then 0 else 1)"
      "\<forall>d \<in> set newS. scope d = ''session'' \<and> session_id d = Some sid \<and> user_id d = uid"
    using generate_session_summary_new [of ev w uid "Some sid"] by blast
  obtain newL where newL:
      "summaries (snd (update_lifetime_summary ev w uid)) = summaries w @ newL"
      "length newL =
         (if filter (\<lambda>d. user_id d = uid \<and> scope d = ''session'') (summaries w) = []
          then 0 else 1)"
      "\<forall>d \<in> set newL. scope d = ''user'' \<and> session_id d = None \<and> user_id d = uid"
    using update_lifetime_summary_new [of ev w uid] by blast
  obtain dS dL newC where newC: "summaries (snd (chat ev w rq)) = summaries w @ newC"
      "set newC \<subseteq> {dS, dL}"
      "scope dS = ''session''" "session_id dS = Some sid" "user_id dS = uid"
      "scope dL = ''user''" "session_id dL = None" "user_id dL = uid"
    using chat_digests [of ev w rq] unfolding rq_def by auto
  have kinds: "\<forall>d \<in> set newC. user_id d = uid \<and>
               (scope d = ''session'' \<and> session_id d = Some sid \<or>
                scope d = ''user'' \<and> session_id d = None)"
    using newC by auto
  have a: "\<forall>d \<in> set (summaries (snd (generate_session_summary ev w uid (Some sid)))). digest_ok d"
    using inv newS by (auto simp: digest_ok_def)
  have b: "\<forall>d \<in> set (summaries (snd (update_lifetime_summary ev w uid))). digest_ok d"
    using inv newL by (auto simp: digest_ok_def)
  have c: "\<forall>d \<in> set (summaries (snd (chat ev w rq))). digest_ok d"
    using inv newC(1) kinds by (auto simp: digest_ok_def)
  show ?thesis
    using newS newL newC(1) kinds a b c unfolding rq_def by blast
qed

theorem digest_scope_invariant_witness:
  "list_all digest_ok (summaries two_turns_world) \<and>
   map (\<lambda>d. (scope d, session_id d))
     (summaries (snd (update_lifetime_summary sample_env two_turns_world ''u''))) =
     [(''session'', Some ''s0''), (''user'', None)] \<and>
   map (\<lambda>d. (scope d, session_id d))
     (summaries (snd (generate_session_summary sample_env two_turns_world ''u'' (Some ''s'')))) =
     [(''session'', Some ''s0''), (''session'', Some ''s'')]"
proof -
  have h: "\<forall>d \<in> set (summaries two_turns_world). digest_ok d"
    by (simp add: two_turns_world_def old_digest_def digest_ok_def)
  have l: "map (\<lambda>d. (scope d, session_id d))
     (summaries (snd (update_lifetime_summary sample_env two_turns_world ''u''))) =
     [(''session'', Some ''s0''), (''user'', None)]"
    by (simp add: update_lifetime_summary_def two_turns_world_def old_digest_def sort_desc_def
          Let_def)
  have s: "map (\<lambda>d. (scope d, session_id d))
     (summaries (snd (generate_session_summary sample_env two_turns_world ''u'' (Some ''s'')))) =
     [(''session'', Some ''s0''), (''session'', Some ''s'')]"
    by (simp add: generate_session_summary_def two_turns_world_def old_digest_def sort_desc_def
          Let_def turn_def in_session_def)
  show ?thesis
    using h l s digest_scope_invariant [OF h, of sample_env "''u''" "''s''" "''hi''"]
    by (simp add: list_all_iff)
qed

text \<open>
  Claim C9 as stated fails twice. The digest that \<open>update_lifetime_summary\<close> writes has a
  scope that is neither \<open>session\<close> nor \<open>lifetime\<close>: the stored value is \<open>user\<close>. And the
  fifth request of a session whose requests carry no session id makes the chat turn store a
  digest of scope \<open>session\<close> that carries no session id.
\<close>

theorem stored_digests_break_claim:
  "scope (last (summaries (snd (update_lifetime_summary sample_env two_turns_world ''u'')))) \<noteq>
     ''session'' \<and>
   scope (last (summaries (snd (update_lifetime_summary sample_env two_turns_world ''u'')))) \<noteq>
     ''lifetime'' \<and>
   length (summaries (snd (update_lifetime_summary sample_env two_turns_world ''u''))) =
     Suc (length (summaries two_turns_world)) \<and>
   map (\<lambda>d. (scope d, session_id d))
     (summaries (snd (chat sample_env null_session_world null_request))) =
     [(''session'', None)]"
proof -
  have first: "scope (last (summaries (snd (update_lifetime_summary sample_env two_turns_world ''u'')))) \<noteq>
     ''session'' \<and>
   scope (last (summaries (snd (update_lifetime_summary sample_env two_turns_world ''u'')))) \<noteq>
     ''lifetime'' \<and>
   length (summaries (snd (update_lifetime_summary sample_env two_turns_world ''u''))) =
     Suc (length (summaries two_turns_world))"
    by (simp add: update_lifetime_summary_def two_turns_world_def old_digest_def sort_desc_def
          Let_def)
  obtain dS where "summaries (snd (chat sample_env null_session_world null_request)) = [dS]"
      "scope dS = ''session''" "session_id dS = None"
    using chat_effect [of sample_env null_session_world null_request]
    by (auto simp: null_session_world_def null_request_def null_turn_def user_turns_def
          session_turns_def in_session_def)
  then have "map (\<lambda>d. (scope d, session_id d))
     (summaries (snd (chat sample_env null_session_world null_request))) = [(''session'', None)]"
    by simp
  then show ?thesis using first by blast
qed

end
